theory Spec2Isabelle
  imports Main "HOL-Library.Multiset"
begin

section \<open>The data of \<open>rag_chain/app.py\<close>\<close>

text \<open>
  The program is a Streamlit page over four library collaborators: a PDF loader, a token
  text splitter, a vector store bound to an embedding model, and a chat model. What the
  program itself does is the wiring: the order of the calls, what it passes on, what it
  checks and what happens to an exception. The model keeps that wiring as it is written.
  Each library call that reaches outside the process is a field of \<open>env\<close>; a call that
  can raise returns \<open>None\<close> or \<open>Inl\<close>, and the program, which has no \<open>try\<close>, passes
  the exception on. The constructor of the chat model, which is given the credential, is
  such a call of its own; the other constructors of library objects only store their
  arguments.
\<close>

type_synonym bytes = string

type_synonym metadata = "(string \<times> string) list"

text \<open>An uploaded file of \<open>st.file_uploader\<close>: its \<open>name\<close> and its buffer.\<close>

record uploaded_file =
  name :: string
  getbuffer :: bytes

text \<open>A langchain \<open>Document\<close>: a page of the loader, a chunk of the splitter.\<close>

record document =
  page_content :: string
  metadata :: metadata

text \<open>A record of the vector store: the chunk, its embedding, and the id the store gave it.\<close>

record 'v indexed_record =
  rec_id :: nat
  embedding :: "'v"
  chunk :: document

text \<open>The exceptions, named as the specification's taxonomy names them.\<close>

datatype error = LoadError | EmbeddingError | QueryError | CredentialError | UpstreamError

text \<open>
  The calls to the collaborators, in the order they are made: the loader on a path, the
  embedding model on a text, the constructor of the chat model with a key, and the chat
  model built with that key on a prompt.
\<close>

datatype call =
    LoaderCall string
  | EmbedCall string
  | ModelInit "string option"
  | ModelCall "string option" string

text \<open>
  What the page shows: \<open>st.header\<close>, \<open>st.title\<close>, \<open>st.markdown\<close>, \<open>st.error\<close>,
  \<open>st.warning\<close>, \<open>st.success\<close>, \<open>st.write\<close>. The widgets themselves are the inputs of
  a run, not part of this log.
\<close>

datatype ui =
    StHeader string
  | StTitle string
  | StMarkdown string
  | StError string
  | StWarning string
  | StSuccess string
  | StWrite string

text \<open>
  The state the program reads and writes: the files under its working directory, the
  records of the collection \<open>pharma_database\<close>, Streamlit's \<open>session_state\<close>, and the two
  logs above.
\<close>

record 'v world =
  files :: "string \<rightharpoonup> bytes"
  db :: "'v indexed_record list"
  session_state :: "string \<rightharpoonup> string"
  calls :: "call list"
  shown :: "ui list"

text \<open>
  The collaborators. \<open>pdf_load\<close> is \<open>PyPDFLoader(path).load()\<close> on the bytes found at the
  path, \<open>split_text\<close> the configured \<open>SentenceTransformersTokenTextSplitter\<close> on one page
  text, \<open>embed\<close> the embedding model, \<open>similarity\<close> the score the store ranks by,
  \<open>new_chat_model\<close> the constructor \<open>ChatGoogleGenerativeAI(model="gemini-1.5-pro",
  api_key=..., temperature=1)\<close> on the key it is given, which returns the model or raises,
  and \<open>invoke\<close> that model on the rendered prompt, its reply read by \<open>StrOutputParser\<close>.
\<close>

record ('v, 's, 'm) env =
  pdf_load :: "bytes \<Rightarrow> document list option"
  split_text :: "string \<Rightarrow> string list"
  embed :: "string \<Rightarrow> 'v option"
  similarity :: "'v \<Rightarrow> 'v \<Rightarrow> 's"
  new_chat_model :: "string option \<Rightarrow> error + 'm"
  invoke :: "'m \<Rightarrow> string \<Rightarrow> error + string"

section \<open>\<open>format_docs\<close>\<close>

text \<open>Python's \<open>sep.join(xs)\<close>.\<close>

fun join :: "string \<Rightarrow> string list \<Rightarrow> string" where
  "join sep [] = []"
| "join sep [x] = x"
| "join sep (x # y # ys) = x @ sep @ join sep (y # ys)"

definition newline :: char where
  "newline = CHR 0x0A"

text \<open>\<^verbatim>\<open>return "\n\n".join(doc.page_content for doc in docs)\<close>\<close>

definition format_docs :: "document list \<Rightarrow> string" where
  "format_docs docs = join [newline, newline] (map page_content docs)"

text \<open>
  The specification's wording of the same string, to compare with: the texts in order,
  each but the last followed by one blank line.
\<close>

fun blank_line_separated :: "string list \<Rightarrow> string" where
  "blank_line_separated [] = []"
| "blank_line_separated (t # ts) =
     (if ts = [] then t else t @ [newline, newline] @ blank_line_separated ts)"

section \<open>The vector store\<close>

text \<open>
  Modelled from the spec: \<open>Chroma.add_documents\<close>, the store's \<open>insert\<close>. The store is
  the \<open>langchain_chroma\<close> library, which is not among the sources. Section 4.2: for each
  chunk, compute its embedding and append a record; append-only, no deduplication; an
  empty sequence is a no-op; \<open>EmbeddingError\<close> if the embedding function errors for a
  chunk, the records appended before it remaining.
\<close>

fun add_documents ::
  "('v, 's, 'm) env \<Rightarrow> document list \<Rightarrow> 'v world \<Rightarrow> (error + unit) \<times> 'v world" where
  "add_documents E [] w = (Inr (), w)"
| "add_documents E (c # cs) w =
     (let w1 = w\<lparr>calls := calls w @ [EmbedCall (page_content c)]\<rparr>
      in case embed E (page_content c) of
           None \<Rightarrow> (Inl EmbeddingError, w1)
         | Some v \<Rightarrow>
             add_documents E cs
               (w1\<lparr>db := db w1 @ [\<lparr>rec_id = length (db w1), embedding = v, chunk = c\<rparr>]\<rparr>))"

text \<open>
  Modelled from the spec: the store's \<open>search\<close>, behind \<open>db.as_retriever\<close>. Section 4.2:
  embed the query with the same embedding function, then return the k records with
  highest similarity to the query embedding, ordered descending by score; all of them
  if the store holds fewer than k; \<open>QueryError\<close> if the embedding function errors on the
  query; read-only.
\<close>

definition ranked :: "('a \<Rightarrow> 's::linorder) \<Rightarrow> 'a list \<Rightarrow> 'a list" where
  "ranked score rs = rev (sort_key score rs)"

definition similarity_search ::
  "('v, 's::linorder, 'm) env \<Rightarrow> string \<Rightarrow> nat \<Rightarrow> 'v world
     \<Rightarrow> (error + 'v indexed_record list) \<times> 'v world" where
  "similarity_search E q k w =
     (let w1 = w\<lparr>calls := calls w @ [EmbedCall q]\<rparr>
      in case embed E q of
           None \<Rightarrow> (Inl QueryError, w1)
         | Some v \<Rightarrow> (Inr (take k (ranked (\<lambda>r. similarity E v (embedding r)) (db w1))), w1))"

section \<open>\<open>add_to_db\<close>\<close>

text \<open>\<open>os.path.join\<close> of two parts (\<open>posixpath\<close>).\<close>

definition os_path_join :: "string \<Rightarrow> string \<Rightarrow> string" where
  "os_path_join a b =
     (if take 1 b = ''/'' then b
      else if a = [] \<or> last a = CHR ''/'' then a @ b
      else a @ ''/'' @ b)"

text \<open>
  Modelled from the spec: \<open>create_documents(texts, metadatas)\<close> of the splitter
  (the \<open>langchain_text_splitters\<close> library). Section 4.1: the chunks of each page in page
  order, then chunk order within the page, every chunk with the metadata of its page
  unchanged. How one text is cut is the collaborator \<open>split_text\<close>.
\<close>

definition create_documents ::
  "('v, 's, 'm) env \<Rightarrow> string list \<Rightarrow> metadata list \<Rightarrow> document list" where
  "create_documents E texts metadatas =
     concat (map (\<lambda>(t, m). map (\<lambda>c. \<lparr>page_content = c, metadata = m\<rparr>) (split_text E t))
                 (zip texts metadatas))"

text \<open>
  The body of the \<open>for\<close> loop, lines 34 to 61, for one uploaded file. The file is written
  to \<open>./temp/<name>\<close>, loaded from there, split, added, and removed. An exception of the
  loader or of the store leaves the body at that line: nothing after it runs. The
  directory \<open>./temp\<close> that \<open>os.makedirs\<close> creates is not part of the state.
\<close>

definition add_file ::
  "('v, 's, 'm) env \<Rightarrow> uploaded_file \<Rightarrow> 'v world \<Rightarrow> (error + unit) \<times> 'v world" where
  "add_file E uploaded w =
     (let temp_file_path = os_path_join ''./temp'' (name uploaded);
          w1 = w\<lparr>files := (files w)(temp_file_path \<mapsto> getbuffer uploaded)\<rparr>;
          w2 = w1\<lparr>calls := calls w1 @ [LoaderCall temp_file_path]\<rparr>
      in case Option.bind (files w2 temp_file_path) (pdf_load E) of
           None \<Rightarrow> (Inl LoadError, w2)
         | Some data \<Rightarrow>
             (let doc_metadata = map metadata data;
                  doc_content = map page_content data;
                  st_chunks = create_documents E doc_content doc_metadata
              in case add_documents E st_chunks w2 of
                   (Inl e, w3) \<Rightarrow> (Inl e, w3)
                 | (Inr u, w3) \<Rightarrow>
                     (Inr (), w3\<lparr>files := (files w3)(temp_file_path := None)\<rparr>)))"

text \<open>The \<open>for\<close> loop: the files in order, left at the first exception.\<close>

fun add_files ::
  "('v, 's, 'm) env \<Rightarrow> uploaded_file list \<Rightarrow> 'v world \<Rightarrow> (error + unit) \<times> 'v world" where
  "add_files E [] w = (Inr (), w)"
| "add_files E (f # fs) w =
     (case add_file E f w of
        (Inl e, w') \<Rightarrow> (Inl e, w')
      | (Inr u, w') \<Rightarrow> add_files E fs w')"

definition add_to_db ::
  "('v, 's, 'm) env \<Rightarrow> uploaded_file list \<Rightarrow> 'v world \<Rightarrow> (error + unit) \<times> 'v world" where
  "add_to_db E uploaded_files w =
     (if uploaded_files = []
      then (Inr (), w\<lparr>shown := shown w @ [StError ''No files uploaded!'']\<rparr>)
      else add_files E uploaded_files w)"

section \<open>\<open>run_rag_chain\<close>\<close>

text \<open>\<open>db.as_retriever(search_type="similarity", search_kwargs={'k': 5})\<close>, invoked.\<close>

definition retriever ::
  "('v, 's::linorder, 'm) env \<Rightarrow> string \<Rightarrow> 'v world \<Rightarrow> (error + document list) \<times> 'v world" where
  "retriever E q w =
     (case similarity_search E q 5 w of
        (Inl e, w1) \<Rightarrow> (Inl e, w1)
      | (Inr rs, w1) \<Rightarrow> (Inr (map chunk rs), w1))"

text \<open>\<open>PROMPT_TEMPLATE\<close>, cut at its two fields.\<close>

definition template_before_context :: string where
  "template_before_context =
     [newline]
     @ ''    You are a highly knowledgeable assistant specializing in pharmaceutical sciences. ''
     @ [newline]
     @ ''    Answer the question based only on the following context:''
     @ [newline]
     @ ''    ''"

definition template_before_question :: string where
  "template_before_question =
     [newline, newline]
     @ ''    Answer the question based on the above context:''
     @ [newline]
     @ ''    ''"

definition template_after_question :: string where
  \<open>template_after_question =
     [newline, newline]
     @ ''    Use the provided context to answer the user's question accurately and concisely.''
     @ [newline]
     @ ''    Don't justify your answers.''
     @ [newline]
     @ ''    Don't give information not mentioned in the CONTEXT INFORMATION.''
     @ [newline]
     @ ''    Do not say "according to the context" or "mentioned in the context" or similar.''
     @ [newline]
     @ ''    ''\<close>

text \<open>\<open>ChatPromptTemplate.from_template(PROMPT_TEMPLATE)\<close>, formatted.\<close>

definition prompt_template :: "string \<Rightarrow> string \<Rightarrow> string" where
  "prompt_template context question =
     template_before_context @ context @ template_before_question @ question
     @ template_after_question"

text \<open>
  The statements in the order of the source. The retriever object and the prompt template
  are built first and only store their arguments. Line 85 builds the chat model with
  the key \<open>st.session_state.get("gemini_api_key")\<close>, which is \<open>None\<close> when the session
  holds no key; if the constructor raises, nothing after it runs. Line 98 invokes the
  chain of line 95 on the query: the retriever, \<open>format_docs\<close>, the prompt, the chat
  model, the parser.
\<close>

definition run_rag_chain ::
  "('v, 's::linorder, 'm) env \<Rightarrow> string \<Rightarrow> 'v world \<Rightarrow> (error + string) \<times> 'v world" where
  "run_rag_chain E query w =
     (let api_key = session_state w ''gemini_api_key'';
          w0 = w\<lparr>calls := calls w @ [ModelInit api_key]\<rparr>
      in case new_chat_model E api_key of
           Inl e \<Rightarrow> (Inl e, w0)
         | Inr chat_model \<Rightarrow>
             (case retriever E query w0 of
                (Inl e, w1) \<Rightarrow> (Inl e, w1)
              | (Inr docs, w1) \<Rightarrow>
                  (let prompt = prompt_template (format_docs docs) query
                   in (invoke E chat_model prompt,
                       w1\<lparr>calls := calls w1 @ [ModelCall api_key prompt]\<rparr>))))"

section \<open>\<open>main\<close>\<close>

text \<open>What one run of the page reads from its widgets.\<close>

record widgets =
  query_text :: string
  submit :: bool
  gemini_api_key :: string
  enter :: bool
  pdf_docs :: "uploaded_file list"
  submit_and_process :: bool

text \<open>Lines 111 to 118.\<close>

definition main_query ::
  "('v, 's::linorder, 'm) env \<Rightarrow> widgets \<Rightarrow> 'v world \<Rightarrow> (error + unit) \<times> 'v world" where
  "main_query E ws w =
     (if submit ws then
        (if query_text ws = []
         then (Inr (), w\<lparr>shown := shown w @ [StWarning ''Please ask a question'']\<rparr>)
         else (case run_rag_chain E (query_text ws) w of
                 (Inl e, w') \<Rightarrow> (Inl e, w')
               | (Inr result, w') \<Rightarrow> (Inr (), w'\<lparr>shown := shown w' @ [StWrite result]\<rparr>)))
      else (Inr (), w))"

text \<open>Lines 120 to 130.\<close>

definition main_api_key :: "widgets \<Rightarrow> 'v world \<Rightarrow> 'v world" where
  "main_api_key ws w =
     (if enter ws then
        (if gemini_api_key ws \<noteq> []
         then w\<lparr>session_state := (session_state w)(''gemini_api_key'' \<mapsto> gemini_api_key ws),
                shown := shown w @ [StSuccess ''API key saved!'']\<rparr>
         else w\<lparr>shown := shown w @ [StWarning ''Please enter your Gemini API key to proceed.'']\<rparr>)
      else w)"

text \<open>Lines 132 to 146.\<close>

definition main_upload ::
  "('v, 's, 'm) env \<Rightarrow> widgets \<Rightarrow> 'v world \<Rightarrow> (error + unit) \<times> 'v world" where
  "main_upload E ws w =
     (if submit_and_process ws then
        (if pdf_docs ws = []
         then (Inr (), w\<lparr>shown := shown w @ [StWarning ''Please upload the file'']\<rparr>)
         else (case add_to_db E (pdf_docs ws) w of
                 (Inl e, w') \<Rightarrow> (Inl e, w')
               | (Inr u, w') \<Rightarrow>
                   (Inr (), w'\<lparr>shown := shown w' @
                      [StSuccess '':file_folder: Documents successfully added to the database!'']\<rparr>)))
      else (Inr (), w))"

text \<open>The text of line 149; the heart is three bytes of UTF-8 and its variation selector three more.\<close>

definition footer :: string where
  "footer =
     ''Built with '' @ [CHR 0xE2, CHR 0x9D, CHR 0xA4, CHR 0xEF, CHR 0xB8, CHR 0x8F]
     @ '' by [Charan](https://www.linkedin.com/in/codewithcharan/)''"

text \<open>
  One run of \<open>main\<close>, lines 103 to 149: the header, the query, the sidebar with the key and
  with the upload, and the footer. An exception of \<open>run_rag_chain\<close> or of \<open>add_to_db\<close>
  ends the run where it is raised.
\<close>

definition main ::
  "('v, 's::linorder, 'm) env \<Rightarrow> widgets \<Rightarrow> 'v world \<Rightarrow> (error + unit) \<times> 'v world" where
  "main E ws w =
     (let w0 = w\<lparr>shown := shown w @ [StHeader ''Pharmaceutical Insight Retrieval System'']\<rparr>
      in case main_query E ws w0 of
           (Inl e, w1) \<Rightarrow> (Inl e, w1)
         | (Inr u, w1) \<Rightarrow>
             (let w2 = main_api_key ws (w1\<lparr>shown := shown w1 @ [StTitle ''API Keys'']\<rparr>);
                  w3 = w2\<lparr>shown := shown w2 @ [StMarkdown ''---'']\<rparr>
              in case main_upload E ws w3 of
                   (Inl e, w4) \<Rightarrow> (Inl e, w4)
                 | (Inr u, w4) \<Rightarrow> (Inr (), w4\<lparr>shown := shown w4 @ [StWrite footer]\<rparr>)))"

section \<open>Example collaborators and inputs\<close>

text \<open>
  A loader that reads a text after the four bytes \<open>%PDF\<close> as one page and fails on
  anything else, a splitter that keeps a text whole, an embedding that is the length of
  the text, a similarity that is higher the closer two lengths are, a chat model whose
  constructor takes any key and whose invocation refuses a missing one; and the same
  with a constructor that refuses a missing key.
\<close>

definition example_env :: "(nat, nat, string option) env" where
  "example_env =
     \<lparr>pdf_load = (\<lambda>b. if take 4 b = ''%PDF''
                       then Some [\<lparr>page_content = drop 4 b, metadata = [(''page'', ''0'')]\<rparr>]
                       else None),
      split_text = (\<lambda>t. [t]),
      embed = (\<lambda>t. Some (length t)),
      similarity = (\<lambda>a b. if a \<le> b then a + 100 - b else b + 100 - a),
      new_chat_model = (\<lambda>k. Inr k),
      invoke = (\<lambda>m p. case m of None \<Rightarrow> Inl CredentialError | Some s \<Rightarrow> Inr ''ok'')\<rparr>"

definition strict_env :: "(nat, nat, string option) env" where
  "strict_env =
     example_env\<lparr>new_chat_model :=
       (\<lambda>k. case k of None \<Rightarrow> Inl CredentialError | Some s \<Rightarrow> Inr k)\<rparr>"

definition start :: "nat world" where
  "start = \<lparr>files = Map.empty, db = [], session_state = Map.empty, calls = [], shown = []\<rparr>"

definition bad_pdf :: uploaded_file where
  "bad_pdf = \<lparr>name = ''bad.pdf'', getbuffer = ''oops''\<rparr>"

definition good_pdf :: uploaded_file where
  "good_pdf = \<lparr>name = ''good.pdf'', getbuffer = ''%PDFAspirin inhibits COX enzymes.''\<rparr>"

definition keyed :: "nat world" where
  "keyed = start\<lparr>session_state := [''gemini_api_key'' \<mapsto> ''secret'']\<rparr>"

definition two_records :: "nat world" where
  "two_records =
     start\<lparr>db := [\<lparr>rec_id = 0, embedding = 3, chunk = \<lparr>page_content = ''abc'', metadata = []\<rparr>\<rparr>,
                   \<lparr>rec_id = 1, embedding = 6, chunk = \<lparr>page_content = ''abcdef'', metadata = []\<rparr>\<rparr>]\<rparr>"

definition blank_query :: widgets where
  "blank_query = \<lparr>query_text = ''  '', submit = True, gemini_api_key = [], enter = False,
     pdf_docs = [], submit_and_process = False\<rparr>"

definition empty_query :: widgets where
  "empty_query = \<lparr>query_text = [], submit = True, gemini_api_key = [], enter = False,
     pdf_docs = [], submit_and_process = False\<rparr>"

section \<open>The store only grows, and a query leaves it as it is\<close>

lemma add_documents_db: "\<exists>new. db (snd (add_documents E cs w)) = db w @ new"
proof (induction cs arbitrary: w)
  case Nil
  show ?case by simp
next
  case (Cons c cs)
  show ?case
  proof (cases "embed E (page_content c)")
    case None
    then show ?thesis by (simp add: Let_def)
  next
    case (Some v)
    let ?w = "w\<lparr>calls := calls w @ [EmbedCall (page_content c)],
                 db := db w @ [\<lparr>rec_id = length (db w), embedding = v, chunk = c\<rparr>]\<rparr>"
    from Cons.IH [of ?w] obtain new where "db (snd (add_documents E cs ?w)) = db ?w @ new" ..
    with Some show ?thesis by (simp add: Let_def)
  qed
qed

lemma add_documents_chunks:
  "fst (add_documents E cs w) = Inr ()
   \<Longrightarrow> map chunk (db (snd (add_documents E cs w))) = map chunk (db w) @ cs"
  by (induction cs arbitrary: w) (auto simp: Let_def split: option.splits)

lemma add_file_db: "\<exists>new. db (snd (add_file E f w)) = db w @ new"
proof -
  let ?p = "os_path_join ''./temp'' (name f)"
  let ?w2 = "w\<lparr>files := (files w)(?p \<mapsto> getbuffer f), calls := calls w @ [LoaderCall ?p]\<rparr>"
  show ?thesis
  proof (cases "pdf_load E (getbuffer f)")
    case None
    then show ?thesis by (simp add: add_file_def Let_def)
  next
    case (Some data)
    let ?cs = "create_documents E (map page_content data) (map metadata data)"
    obtain new where n: "db (snd (add_documents E ?cs ?w2)) = db ?w2 @ new"
      using add_documents_db by blast
    obtain r w3 where r: "add_documents E ?cs ?w2 = (r, w3)" by (cases "add_documents E ?cs ?w2")
    with n have "db w3 = db w @ new" by simp
    with Some r show ?thesis by (cases r) (simp_all add: add_file_def Let_def)
  qed
qed

lemma add_files_db: "\<exists>new. db (snd (add_files E fs w)) = db w @ new"
proof (induction fs arbitrary: w)
  case Nil
  show ?case by simp
next
  case (Cons f fs)
  obtain r w1 where r: "add_file E f w = (r, w1)" by (cases "add_file E f w")
  obtain n1 where n1: "db w1 = db w @ n1" using add_file_db [of E f w] r by auto
  show ?case
  proof (cases r)
    case (Inl e)
    with r n1 show ?thesis by simp
  next
    case (Inr u)
    from Cons.IH [of w1] obtain n2 where "db (snd (add_files E fs w1)) = db w1 @ n2" ..
    with Inr r n1 show ?thesis by simp
  qed
qed

lemma add_to_db_db: "\<exists>new. db (snd (add_to_db E fs w)) = db w @ new"
  using add_files_db [of E fs w] by (simp add: add_to_db_def)

lemma similarity_search_db: "db (snd (similarity_search E q k w)) = db w"
  by (simp add: similarity_search_def Let_def split: option.splits)

lemma retriever_db: "db (snd (retriever E q w)) = db w"
  using similarity_search_db [of E q 5 w]
  by (cases "similarity_search E q 5 w") (auto simp: retriever_def split: sum.splits)

lemma run_rag_chain_db: "db (snd (run_rag_chain E q w)) = db w"
proof (cases "new_chat_model E (session_state w ''gemini_api_key'')")
  case (Inl e)
  then show ?thesis by (simp add: run_rag_chain_def Let_def)
next
  case (Inr m)
  let ?w0 = "w\<lparr>calls := calls w @ [ModelInit (session_state w ''gemini_api_key'')]\<rparr>"
  obtain r w1 where r: "retriever E q ?w0 = (r, w1)" by (cases "retriever E q ?w0")
  with retriever_db [of E q ?w0] have "db w1 = db w" by simp
  with Inr r show ?thesis by (cases r) (simp_all add: run_rag_chain_def Let_def)
qed

section \<open>The calls a query makes\<close>

lemma similarity_search_calls:
  "calls (snd (similarity_search E q k w)) = calls w @ [EmbedCall q]"
  by (simp add: similarity_search_def Let_def split: option.splits)

lemma retriever_calls: "calls (snd (retriever E q w)) = calls w @ [EmbedCall q]"
  using similarity_search_calls [of E q 5 w]
  by (cases "similarity_search E q 5 w") (auto simp: retriever_def split: sum.splits)

lemma similarity_search_frame:
  "db w' = db w \<Longrightarrow> fst (similarity_search E q k w') = fst (similarity_search E q k w)"
  by (simp add: similarity_search_def Let_def split: option.splits)

lemma retriever_frame:
  assumes "db w' = db w"
  shows "fst (retriever E q w') = fst (retriever E q w)"
  using similarity_search_frame [OF assms, of E q 5]
  by (cases "similarity_search E q 5 w'"; cases "similarity_search E q 5 w")
    (auto simp: retriever_def split: sum.splits)

lemma run_rag_chain_refused:
  assumes "new_chat_model E (session_state w ''gemini_api_key'') = Inl e"
  shows "run_rag_chain E q w
      = (Inl e, w\<lparr>calls := calls w @ [ModelInit (session_state w ''gemini_api_key'')]\<rparr>)"
  using assms by (simp add: run_rag_chain_def Let_def)

lemma run_rag_chain_retrieved:
  assumes "new_chat_model E (session_state w ''gemini_api_key'') = Inr m"
    and "fst (retriever E q w) = Inr docs"
  shows "fst (run_rag_chain E q w) = invoke E m (prompt_template (format_docs docs) q)
     \<and> calls (snd (run_rag_chain E q w))
        = calls w @ [ModelInit (session_state w ''gemini_api_key''), EmbedCall q,
            ModelCall (session_state w ''gemini_api_key'') (prompt_template (format_docs docs) q)]"
proof -
  let ?w0 = "w\<lparr>calls := calls w @ [ModelInit (session_state w ''gemini_api_key'')]\<rparr>"
  obtain r w1 where r: "retriever E q ?w0 = (r, w1)" by (cases "retriever E q ?w0")
  have "fst (retriever E q ?w0) = fst (retriever E q w)" by (rule retriever_frame) simp
  with assms(2) r have d: "r = Inr docs" by simp
  have "calls w1 = calls ?w0 @ [EmbedCall q]" using retriever_calls [of E q ?w0] r by simp
  with r d assms(1) show ?thesis by (simp add: run_rag_chain_def Let_def)
qed

section \<open>Ranking\<close>

lemma ranked_mset: "mset (ranked f rs) = mset rs"
  by (simp add: ranked_def)

lemma ranked_descending: "sorted_wrt (\<lambda>a b. f b \<le> f a) (ranked f rs)"
proof -
  have "sorted (map f (sort_key f rs))" by (rule sorted_sort_key)
  then have "sorted_wrt (\<lambda>a b. f a \<le> f b) (sort_key f rs)"
    by (simp add: sorted_wrt_map)
  then show ?thesis
    by (simp add: ranked_def sorted_wrt_rev)
qed

lemma take_drop_descending:
  assumes "sorted_wrt (\<lambda>a b. f b \<le> f a) xs" "a \<in> set (take k xs)" "b \<in> set (drop k xs)"
  shows "f b \<le> f a"
proof -
  from assms(1) have "sorted_wrt (\<lambda>a b. f b \<le> f a) (take k xs @ drop k xs)" by simp
  then show ?thesis using assms(2,3) unfolding sorted_wrt_append by blast
qed

lemma similarity_search_result:
  assumes "embed E q = Some v"
  shows "fst (similarity_search E q k w)
      = Inr (take k (ranked (\<lambda>r. similarity E v (embedding r)) (db w)))"
  using assms by (simp add: similarity_search_def Let_def)

lemma retrievable:
  assumes "r \<in> set (db w)" "embed E q = Some v" "length (db w) \<le> k"
  shows "\<exists>rs. fst (similarity_search E q k w) = Inr rs \<and> r \<in> set rs"
proof -
  let ?all = "ranked (\<lambda>r. similarity E v (embedding r)) (db w)"
  have "length ?all = length (db w)" by (metis ranked_mset size_mset)
  with assms(3) have "take k ?all = ?all" by simp
  moreover have "r \<in> set ?all" using assms(1) by (metis ranked_mset set_mset_mset)
  ultimately show ?thesis
    using similarity_search_result [OF assms(2), of k w] by simp
qed

section \<open>The loop over the uploaded files\<close>

lemma add_file_load_fails:
  assumes "pdf_load E (getbuffer f) = None"
  shows "add_file E f w =
      (Inl LoadError,
       w\<lparr>files := (files w)(os_path_join ''./temp'' (name f) \<mapsto> getbuffer f),
          calls := calls w @ [LoaderCall (os_path_join ''./temp'' (name f))]\<rparr>)"
  using assms by (simp add: add_file_def Let_def)

lemma add_files_append:
  "add_files E pre w = (Inr (), w1) \<Longrightarrow> add_files E (pre @ fs) w = add_files E fs w1"
proof (induction pre arbitrary: w)
  case Nil
  then show ?case by simp
next
  case (Cons f pre)
  obtain r w' where r: "add_file E f w = (r, w')" by (cases "add_file E f w")
  show ?case
  proof (cases r)
    case (Inl e)
    with r Cons.prems show ?thesis by simp
  next
    case (Inr u)
    with r Cons.prems have "add_files E pre w' = (Inr (), w1)" by simp
    from Cons.IH [OF this] Inr r show ?thesis by simp
  qed
qed

section \<open>The context string\<close>

lemma join_blank_line: "join [newline, newline] ts = blank_line_separated ts"
  by (induction ts rule: blank_line_separated.induct) (auto simp: neq_Nil_conv)

lemma format_docs_blank_line:
  "format_docs docs = blank_line_separated (map page_content docs)"
  by (simp add: format_docs_def join_blank_line)

section \<open>Ingestion\<close>

text \<open>
  Claim C1: the temporary file written for the loader is deleted on every exit path of
  the ingestion of a document. The program removes the file in the last line of the loop
  body only, so an exception of the loader (or of the store) leaves it behind. One
  upload the loader cannot read: \<open>add_to_db\<close> raises \<open>LoadError\<close> and
  \<open>./temp/bad.pdf\<close> still holds the uploaded bytes; after a readable upload the file is
  gone.
\<close>

theorem add_to_db_leaks_temp_file_on_load_failure:
  "fst (add_to_db example_env [bad_pdf] start) = Inl LoadError
   \<and> files (snd (add_to_db example_env [bad_pdf] start)) ''./temp/bad.pdf'' = Some ''oops''
   \<and> files (snd (add_to_db example_env [good_pdf] start)) ''./temp/good.pdf'' = None"
  by (simp add: add_to_db_def add_file_def create_documents_def example_env_def start_def
      bad_pdf_def good_pdf_def os_path_join_def Let_def)

text \<open>
  A batch of an unreadable file followed by a readable one: the call ends with the
  loader's error, the only call made is the loader's on the first file, and the store
  is empty, although the second file alone is ingested without error.
\<close>

theorem add_to_db_batch_aborts_counterexample:
  "fst (add_to_db example_env [bad_pdf, good_pdf] start) = Inl LoadError
   \<and> db (snd (add_to_db example_env [bad_pdf, good_pdf] start)) = []
   \<and> calls (snd (add_to_db example_env [bad_pdf, good_pdf] start)) = [LoaderCall ''./temp/bad.pdf'']
   \<and> fst (add_to_db example_env [good_pdf] start) = Inr ()
   \<and> map chunk (db (snd (add_to_db example_env [good_pdf] start)))
       = [\<lparr>page_content = ''Aspirin inhibits COX enzymes.'', metadata = [(''page'', ''0'')]\<rparr>]"
  by (simp add: add_to_db_def add_file_def create_documents_def example_env_def start_def
      bad_pdf_def good_pdf_def os_path_join_def Let_def)

text \<open>
  Claim C2, as the program has it: there is no per-document isolation. When the files
  before an unreadable one were ingested and the loader fails on it, \<open>add_to_db\<close> ends
  with \<open>LoadError\<close> at that file: the store is as the earlier files left it, the
  loader's call on the unreadable file is the last call, nothing is shown, and the files
  after it play no part.
\<close>

theorem add_to_db_stops_at_first_load_failure:
  assumes "add_files E pre w = (Inr (), w1)"
    and "pdf_load E (getbuffer bad) = None"
  shows "fst (add_to_db E (pre @ bad # post) w) = Inl LoadError
     \<and> db (snd (add_to_db E (pre @ bad # post) w)) = db w1
     \<and> calls (snd (add_to_db E (pre @ bad # post) w))
         = calls w1 @ [LoaderCall (os_path_join ''./temp'' (name bad))]
     \<and> shown (snd (add_to_db E (pre @ bad # post) w)) = shown w1"
proof -
  have "add_to_db E (pre @ bad # post) w = add_files E (bad # post) w1"
    using add_files_append [OF assms(1)] by (simp add: add_to_db_def)
  then show ?thesis
    by (simp add: add_file_load_fails [OF assms(2)])
qed

theorem add_to_db_stops_at_first_load_failure_witness:
  "fst (add_to_db example_env ([good_pdf] @ bad_pdf # [good_pdf]) start) = Inl LoadError
   \<and> length (db (snd (add_to_db example_env ([good_pdf] @ bad_pdf # [good_pdf]) start))) = 1
   \<and> calls (snd (add_to_db example_env ([good_pdf] @ bad_pdf # [good_pdf]) start))
       = [LoaderCall ''./temp/good.pdf'', EmbedCall ''Aspirin inhibits COX enzymes.'',
          LoaderCall ''./temp/bad.pdf'']"
proof -
  let ?w1 = "snd (add_files example_env [good_pdf] start)"
  have a: "add_files example_env [good_pdf] start = (Inr (), ?w1)"
    by (simp add: add_file_def create_documents_def example_env_def start_def good_pdf_def
        os_path_join_def Let_def)
  have b: "pdf_load example_env (getbuffer bad_pdf) = None"
    by (simp add: example_env_def bad_pdf_def)
  have c: "length (db ?w1) = 1
      \<and> calls ?w1 = [LoaderCall ''./temp/good.pdf'', EmbedCall ''Aspirin inhibits COX enzymes.'']"
    by (simp add: add_file_def create_documents_def example_env_def start_def good_pdf_def
        os_path_join_def Let_def)
  have d: "os_path_join ''./temp'' (name bad_pdf) = ''./temp/bad.pdf''"
    by (simp add: os_path_join_def bad_pdf_def)
  show ?thesis
    using add_to_db_stops_at_first_load_failure [OF a b, of "[good_pdf]"] c d by simp
qed

section \<open>The query guard of \<open>main\<close>\<close>

text \<open>
  A query of two spaces, submitted in a session that holds a key: \<open>main\<close> passes it on,
  the chat model is built, the embedding model and the chat model are both called, and
  the answer is written to the page.
\<close>

theorem main_whitespace_query_counterexample:
  "fst (main example_env blank_query keyed) = Inr ()
   \<and> calls (snd (main example_env blank_query keyed))
       = [ModelInit (Some ''secret''), EmbedCall ''  '',
          ModelCall (Some ''secret'')
            (template_before_context @ template_before_question @ ''  ''
             @ template_after_question)]
   \<and> shown (snd (main example_env blank_query keyed))
       = [StHeader ''Pharmaceutical Insight Retrieval System'', StWrite ''ok'',
          StTitle ''API Keys'', StMarkdown ''---'', StWrite footer]"
  by (simp add: main_def main_query_def main_api_key_def main_upload_def run_rag_chain_def
      retriever_def similarity_search_def ranked_def format_docs_def prompt_template_def
      example_env_def keyed_def start_def blank_query_def Let_def)

text \<open>
  Claim C3, as the program has it: on Submit, \<open>main\<close> turns away the empty string, with
  the warning \<open>Please ask a question\<close> and no exception, and nothing else happens in
  lines 111 to 118: the chat model is not built and no collaborator is called. When
  the upload is not submitted in the same run, the whole run makes no call and raises
  nothing.
\<close>

theorem main_turns_away_the_empty_query:
  assumes "submit ws"
  shows "(query_text ws = [] \<longrightarrow>
            main_query E ws w
              = (Inr (), w\<lparr>shown := shown w @ [StWarning ''Please ask a question'']\<rparr>))
     \<and> (query_text ws = [] \<and> \<not> submit_and_process ws \<longrightarrow>
            fst (main E ws w) = Inr () \<and> calls (snd (main E ws w)) = calls w)"
proof (intro conjI impI)
  assume "query_text ws = []"
  with assms show "main_query E ws w
      = (Inr (), w\<lparr>shown := shown w @ [StWarning ''Please ask a question'']\<rparr>)"
    by (simp add: main_query_def)
next
  assume "query_text ws = [] \<and> \<not> submit_and_process ws"
  with assms show "fst (main E ws w) = Inr ()"
    by (simp add: main_def main_query_def main_upload_def Let_def)
next
  assume "query_text ws = [] \<and> \<not> submit_and_process ws"
  with assms show "calls (snd (main E ws w)) = calls w"
    by (simp add: main_def main_query_def main_upload_def main_api_key_def Let_def)
qed

theorem main_turns_away_the_empty_query_witness:
  "submit empty_query
   \<and> main_query example_env empty_query keyed
       = (Inr (), keyed\<lparr>shown := shown keyed @ [StWarning ''Please ask a question'']\<rparr>)
   \<and> fst (main example_env empty_query keyed) = Inr ()
   \<and> calls (snd (main example_env empty_query keyed)) = calls keyed"
proof -
  have a: "submit empty_query" "query_text empty_query = []" "\<not> submit_and_process empty_query"
    by (simp_all add: empty_query_def)
  show ?thesis
    using main_turns_away_the_empty_query [OF a(1), of example_env keyed] a
    by simp
qed

section \<open>Search\<close>

text \<open>
  Claim C5: when the query embeds, \<open>search\<close> returns, for every k, the k records of the
  store with the highest similarity to the query embedding, in descending order of
  score: the result and the records left out make up the store, none left out scores
  higher than one returned, and the result has \<open>min k n\<close> records of the n stored, so all
  of them when the store holds no more than k, and two for k = 5 on a store of two.
\<close>

theorem similarity_search_top_k:
  assumes "embed E q = Some v"
  shows "\<exists>rs rest. fst (similarity_search E q k w) = Inr rs
      \<and> mset rs + mset rest = mset (db w)
      \<and> length rs = min k (length (db w))
      \<and> sorted_wrt (\<lambda>a b. similarity E v (embedding b) \<le> similarity E v (embedding a)) rs
      \<and> (\<forall>a\<in>set rs. \<forall>b\<in>set rest.
            similarity E v (embedding b) \<le> similarity E v (embedding a))
      \<and> (length (db w) \<le> k \<longrightarrow> mset rs = mset (db w))
      \<and> (k = 5 \<and> length (db w) = 2 \<longrightarrow> length rs = 2)"
proof -
  let ?f = "\<lambda>r. similarity E v (embedding r)"
  let ?all = "ranked ?f (db w)"
  have desc: "sorted_wrt (\<lambda>a b. ?f b \<le> ?f a) ?all" by (rule ranked_descending)
  have len: "length ?all = length (db w)"
    using ranked_mset [of ?f "db w"] by (metis size_mset)
  have 1: "fst (similarity_search E q k w) = Inr (take k ?all)"
    by (rule similarity_search_result [OF assms])
  have 2: "mset (take k ?all) + mset (drop k ?all) = mset (db w)"
    by (metis append_take_drop_id mset_append ranked_mset)
  have 3: "length (take k ?all) = min k (length (db w))"
    using len by simp
  have 4: "sorted_wrt (\<lambda>a b. ?f b \<le> ?f a) (take k ?all)"
    using desc by (rule sorted_wrt_take)
  have 5: "\<forall>a\<in>set (take k ?all). \<forall>b\<in>set (drop k ?all). ?f b \<le> ?f a"
    using take_drop_descending [OF desc] by blast
  have 6: "length (db w) \<le> k \<longrightarrow> mset (take k ?all) = mset (db w)"
    using len by (simp add: ranked_mset)
  have 7: "k = 5 \<and> length (db w) = 2 \<longrightarrow> length (take k ?all) = 2"
    using len by simp
  from 1 2 3 4 5 6 7 show ?thesis by blast
qed

theorem similarity_search_top_k_witness:
  "embed example_env ''query'' = Some 5
   \<and> fst (similarity_search example_env ''query'' 5 two_records)
       = Inr [\<lparr>rec_id = 1, embedding = 6, chunk = \<lparr>page_content = ''abcdef'', metadata = []\<rparr>\<rparr>,
              \<lparr>rec_id = 0, embedding = 3, chunk = \<lparr>page_content = ''abc'', metadata = []\<rparr>\<rparr>]
   \<and> (\<exists>rs. fst (similarity_search example_env ''query'' 5 two_records) = Inr rs \<and> length rs = 2)"
proof -
  have e: "embed example_env ''query'' = Some 5" by (simp add: example_env_def)
  have l: "length (db two_records) = 2" by (simp add: two_records_def start_def)
  have v: "fst (similarity_search example_env ''query'' 5 two_records)
       = Inr [\<lparr>rec_id = 1, embedding = 6, chunk = \<lparr>page_content = ''abcdef'', metadata = []\<rparr>\<rparr>,
              \<lparr>rec_id = 0, embedding = 3, chunk = \<lparr>page_content = ''abc'', metadata = []\<rparr>\<rparr>]"
    by (simp add: similarity_search_def ranked_def example_env_def two_records_def start_def Let_def)
  from similarity_search_top_k [OF e, of 5 two_records] l
  have "\<exists>rs. fst (similarity_search example_env ''query'' 5 two_records) = Inr rs \<and> length rs = 2"
    by auto
  with e v show ?thesis by simp
qed

text \<open>
  Claim C8: a record of the store stays retrievable. Every chunk of a successful insert
  becomes a record, in order, after the ones already there; and whatever is inserted
  afterwards, by \<open>add_documents\<close> or by a whole \<open>add_to_db\<close>, finished or failed, a record
  that was in the store is among the results of any search whose query embeds and whose
  k is at least the number of records.
\<close>

theorem inserted_records_stay_retrievable:
  assumes "r \<in> set (db w)" and "embed E q = Some v"
  shows "(fst (add_documents E cs w) = Inr () \<longrightarrow>
            map chunk (db (snd (add_documents E cs w))) = map chunk (db w) @ cs)
     \<and> (length (db (snd (add_documents E cs w))) \<le> k \<longrightarrow>
          (\<exists>rs. fst (similarity_search E q k (snd (add_documents E cs w))) = Inr rs
                \<and> r \<in> set rs))
     \<and> (length (db (snd (add_to_db E fs w))) \<le> k \<longrightarrow>
          (\<exists>rs. fst (similarity_search E q k (snd (add_to_db E fs w))) = Inr rs
                \<and> r \<in> set rs))"
proof (intro conjI impI)
  assume "fst (add_documents E cs w) = Inr ()"
  then show "map chunk (db (snd (add_documents E cs w))) = map chunk (db w) @ cs"
    by (rule add_documents_chunks)
next
  assume k: "length (db (snd (add_documents E cs w))) \<le> k"
  obtain new where "db (snd (add_documents E cs w)) = db w @ new"
    using add_documents_db by blast
  with assms(1) have "r \<in> set (db (snd (add_documents E cs w)))" by simp
  from retrievable [OF this assms(2) k]
  show "\<exists>rs. fst (similarity_search E q k (snd (add_documents E cs w))) = Inr rs \<and> r \<in> set rs" .
next
  assume k: "length (db (snd (add_to_db E fs w))) \<le> k"
  obtain new where "db (snd (add_to_db E fs w)) = db w @ new"
    using add_to_db_db by blast
  with assms(1) have "r \<in> set (db (snd (add_to_db E fs w)))" by simp
  from retrievable [OF this assms(2) k]
  show "\<exists>rs. fst (similarity_search E q k (snd (add_to_db E fs w))) = Inr rs \<and> r \<in> set rs" .
qed

theorem inserted_records_stay_retrievable_witness:
  "\<lparr>rec_id = 0, embedding = 3, chunk = \<lparr>page_content = ''abc'', metadata = []\<rparr>\<rparr> \<in> set (db two_records)
   \<and> embed example_env ''query'' = Some 5
   \<and> length (db (snd (add_to_db example_env [good_pdf] two_records))) = 3
   \<and> (\<exists>rs. fst (similarity_search example_env ''query'' 3 (snd (add_to_db example_env [good_pdf] two_records)))
             = Inr rs
           \<and> \<lparr>rec_id = 0, embedding = 3, chunk = \<lparr>page_content = ''abc'', metadata = []\<rparr>\<rparr> \<in> set rs)"
proof -
  let ?r = "\<lparr>rec_id = 0, embedding = 3::nat, chunk = \<lparr>page_content = ''abc'', metadata = []\<rparr>\<rparr>"
  have a: "?r \<in> set (db two_records)" by (simp add: two_records_def start_def)
  have e: "embed example_env ''query'' = Some 5" by (simp add: example_env_def)
  have l: "length (db (snd (add_to_db example_env [good_pdf] two_records))) = 3"
    by (simp add: add_to_db_def add_file_def create_documents_def example_env_def two_records_def
        start_def good_pdf_def os_path_join_def Let_def)
  from inserted_records_stay_retrievable [OF a e, of "[]" 3 "[good_pdf]"] l a e
  show ?thesis by simp
qed

section \<open>The chain\<close>

text \<open>
  Claim C6: the context in the prompt is the texts of the retrieved chunks, in the order
  the retriever returned them, consecutive texts separated by one blank line. Once the
  chat model is built and the retriever has returned, the chat model is called with the
  template around exactly that string and the query.
\<close>

theorem prompt_context_in_ranked_order:
  assumes "new_chat_model E (session_state w ''gemini_api_key'') = Inr m"
    and "fst (retriever E q w) = Inr docs"
  shows "format_docs docs = blank_line_separated (map page_content docs)
     \<and> fst (run_rag_chain E q w)
        = invoke E m
            (template_before_context
             @ blank_line_separated (map page_content docs)
             @ template_before_question @ q @ template_after_question)
     \<and> calls (snd (run_rag_chain E q w))
        = calls w @ [ModelInit (session_state w ''gemini_api_key''), EmbedCall q,
            ModelCall (session_state w ''gemini_api_key'')
              (template_before_context
               @ blank_line_separated (map page_content docs)
               @ template_before_question @ q @ template_after_question)]"
  using run_rag_chain_retrieved [OF assms]
  by (simp add: format_docs_blank_line prompt_template_def)

theorem prompt_context_in_ranked_order_witness:
  "new_chat_model example_env (session_state two_records ''gemini_api_key'') = Inr None
   \<and> fst (retriever example_env ''query'' two_records)
       = Inr [\<lparr>page_content = ''abcdef'', metadata = []\<rparr>, \<lparr>page_content = ''abc'', metadata = []\<rparr>]
   \<and> format_docs [\<lparr>page_content = ''abcdef'', metadata = []\<rparr>, \<lparr>page_content = ''abc'', metadata = []\<rparr>]
       = ''abcdef'' @ [newline, newline] @ ''abc''
   \<and> calls (snd (run_rag_chain example_env ''query'' two_records))
        = [ModelInit None, EmbedCall ''query'',
           ModelCall None
             (template_before_context @ ''abcdef'' @ [newline, newline] @ ''abc''
              @ template_before_question @ ''query'' @ template_after_question)]"
proof -
  have r: "fst (retriever example_env ''query'' two_records)
       = Inr [\<lparr>page_content = ''abcdef'', metadata = []\<rparr>, \<lparr>page_content = ''abc'', metadata = []\<rparr>]"
    by (simp add: retriever_def similarity_search_def ranked_def example_env_def two_records_def
        start_def Let_def)
  have s: "session_state two_records ''gemini_api_key'' = None" "calls two_records = []"
    by (simp_all add: two_records_def start_def)
  have m: "new_chat_model example_env (session_state two_records ''gemini_api_key'') = Inr None"
    by (simp add: example_env_def s)
  from prompt_context_in_ranked_order [OF m r] s r m show ?thesis by simp
qed

text \<open>
  Claim C9: when the retriever returns no record, \<open>format_docs\<close> gives the empty string,
  the prompt is the template with nothing in the context field, the chat model that
  line 85 built is called with it, and what \<open>run_rag_chain\<close> returns or raises is what
  that call returns or raises.
\<close>

theorem run_rag_chain_empty_retrieval:
  assumes "new_chat_model E (session_state w ''gemini_api_key'') = Inr m"
    and "fst (retriever E q w) = Inr []"
  shows "format_docs [] = []
     \<and> fst (run_rag_chain E q w)
        = invoke E m
            (template_before_context @ template_before_question @ q @ template_after_question)
     \<and> calls (snd (run_rag_chain E q w))
        = calls w @ [ModelInit (session_state w ''gemini_api_key''), EmbedCall q,
            ModelCall (session_state w ''gemini_api_key'')
              (template_before_context @ template_before_question @ q @ template_after_question)]"
  using run_rag_chain_retrieved [OF assms]
  by (simp add: format_docs_def prompt_template_def)

theorem run_rag_chain_empty_retrieval_witness:
  "new_chat_model example_env (session_state keyed ''gemini_api_key'') = Inr (Some ''secret'')
   \<and> fst (retriever example_env ''query'' keyed) = Inr []
   \<and> fst (run_rag_chain example_env ''query'' keyed) = Inr ''ok''
   \<and> calls (snd (run_rag_chain example_env ''query'' keyed))
        = [ModelInit (Some ''secret''), EmbedCall ''query'',
           ModelCall (Some ''secret'')
             (template_before_context @ template_before_question @ ''query''
              @ template_after_question)]"
proof -
  have r: "fst (retriever example_env ''query'' keyed) = Inr []"
    by (simp add: retriever_def similarity_search_def ranked_def example_env_def keyed_def
        start_def Let_def)
  have s: "session_state keyed ''gemini_api_key'' = Some ''secret''" "calls keyed = []"
    by (simp_all add: keyed_def start_def)
  have m: "new_chat_model example_env (session_state keyed ''gemini_api_key'') = Inr (Some ''secret'')"
    by (simp add: example_env_def s)
  have g: "invoke example_env (Some ''secret'') p = Inr ''ok''" for p
    by (simp add: example_env_def)
  from run_rag_chain_empty_retrieval [OF m r] r s m g show ?thesis by simp
qed

text \<open>
  No key in the session and a constructor that refuses a missing key: \<open>run_rag_chain\<close>
  raises \<open>CredentialError\<close> at line 85. The constructor's is the only call made; the two
  records of the store are never searched and the chat model is never invoked.
\<close>

theorem run_rag_chain_missing_key_counterexample:
  "session_state two_records ''gemini_api_key'' = None
   \<and> fst (run_rag_chain strict_env ''query'' two_records) = Inl CredentialError
   \<and> calls (snd (run_rag_chain strict_env ''query'' two_records)) = [ModelInit None]"
  by (simp add: run_rag_chain_def strict_env_def example_env_def two_records_def start_def
      Let_def)

text \<open>
  Claim C10, as the program has it: with no key in the session, \<open>run_rag_chain\<close> checks
  nothing itself and hands \<open>None\<close> to the constructor of the chat model, before anything
  else. If the constructor raises, its exception is the outcome and no other call is
  made. If it returns a model, retrieval, \<open>format_docs\<close>, the prompt and the invocation
  follow: once the retriever has returned, that model is called on the template around
  the joined texts and the query, and the outcome of the chain is the outcome of that
  call.
\<close>

theorem run_rag_chain_hands_missing_key_to_constructor:
  assumes "session_state w ''gemini_api_key'' = None"
  shows "(\<forall>e. new_chat_model E None = Inl e \<longrightarrow>
            fst (run_rag_chain E q w) = Inl e
            \<and> calls (snd (run_rag_chain E q w)) = calls w @ [ModelInit None])
     \<and> (\<forall>m docs. new_chat_model E None = Inr m \<and> fst (retriever E q w) = Inr docs \<longrightarrow>
            fst (run_rag_chain E q w)
              = invoke E m
                  (template_before_context
                   @ blank_line_separated (map page_content docs)
                   @ template_before_question @ q @ template_after_question)
            \<and> calls (snd (run_rag_chain E q w))
              = calls w @ [ModelInit None, EmbedCall q,
                  ModelCall None
                    (template_before_context
                     @ blank_line_separated (map page_content docs)
                     @ template_before_question @ q @ template_after_question)])"
proof (intro conjI allI impI)
  fix e
  assume "new_chat_model E None = Inl e"
  with assms have r: "new_chat_model E (session_state w ''gemini_api_key'') = Inl e" by simp
  from run_rag_chain_refused [OF r] assms
  show "fst (run_rag_chain E q w) = Inl e" by simp
  from run_rag_chain_refused [OF r] assms
  show "calls (snd (run_rag_chain E q w)) = calls w @ [ModelInit None]" by simp
next
  fix m docs
  assume a: "new_chat_model E None = Inr m \<and> fst (retriever E q w) = Inr docs"
  with assms have c: "new_chat_model E (session_state w ''gemini_api_key'') = Inr m" by simp
  from a have d: "fst (retriever E q w) = Inr docs" by simp
  from run_rag_chain_retrieved [OF c d] assms
  show "fst (run_rag_chain E q w)
      = invoke E m
          (template_before_context
           @ blank_line_separated (map page_content docs)
           @ template_before_question @ q @ template_after_question)"
    by (simp add: format_docs_blank_line prompt_template_def)
  from run_rag_chain_retrieved [OF c d] assms
  show "calls (snd (run_rag_chain E q w))
      = calls w @ [ModelInit None, EmbedCall q,
          ModelCall None
            (template_before_context
             @ blank_line_separated (map page_content docs)
             @ template_before_question @ q @ template_after_question)]"
    by (simp add: format_docs_blank_line prompt_template_def)
qed

theorem run_rag_chain_hands_missing_key_to_constructor_witness:
  "session_state two_records ''gemini_api_key'' = None
   \<and> new_chat_model strict_env None = Inl CredentialError
   \<and> fst (run_rag_chain strict_env ''query'' two_records) = Inl CredentialError
   \<and> calls (snd (run_rag_chain strict_env ''query'' two_records)) = [ModelInit None]
   \<and> new_chat_model example_env None = Inr None
   \<and> fst (retriever example_env ''query'' two_records)
       = Inr [\<lparr>page_content = ''abcdef'', metadata = []\<rparr>, \<lparr>page_content = ''abc'', metadata = []\<rparr>]
   \<and> fst (run_rag_chain example_env ''query'' two_records) = Inl CredentialError
   \<and> calls (snd (run_rag_chain example_env ''query'' two_records))
       = [ModelInit None, EmbedCall ''query'',
          ModelCall None
            (template_before_context @ ''abcdef'' @ [newline, newline] @ ''abc''
             @ template_before_question @ ''query'' @ template_after_question)]"
proof -
  have s: "session_state two_records ''gemini_api_key'' = None" "calls two_records = []"
    by (simp_all add: two_records_def start_def)
  have c: "new_chat_model strict_env None = Inl CredentialError"
    by (simp add: strict_env_def)
  have m: "new_chat_model example_env None = Inr None"
    by (simp add: example_env_def)
  have r: "fst (retriever example_env ''query'' two_records)
       = Inr [\<lparr>page_content = ''abcdef'', metadata = []\<rparr>, \<lparr>page_content = ''abc'', metadata = []\<rparr>]"
    by (simp add: retriever_def similarity_search_def ranked_def example_env_def two_records_def
        start_def Let_def)
  have g: "invoke example_env None p = Inl CredentialError" for p
    by (simp add: example_env_def)
  from run_rag_chain_hands_missing_key_to_constructor [OF s(1), of strict_env "''query''"]
    run_rag_chain_hands_missing_key_to_constructor [OF s(1), of example_env "''query''"]
    s c m r g
  show ?thesis by simp
qed

end
